theory Spec2Isabelle
  imports Main "HOL-Library.Word"
begin

section \<open>The smarthttp request pipeline\<close>

text \<open>
  A shallow embedding of package \<open>smarthttp\<close>: the base executor of \<open>Client.Do\<close>, the
  retry layer (\<open>retries.go\<close>), the circuit-breaker layer and the single-flight layer
  (\<open>singleflight.go\<close>). Go's closures over shared variables become state-passing
  functions on a \<open>world\<close>; pointers become addresses into the world's stores.
\<close>

subsection \<open>Errors\<close>

text \<open>
  Go error values. The package's sentinels (\<open>errors.New\<close>) are constructors of their own;
  so are the sentinels of the libraries the package compares against. \<open>UrlError e\<close> is
  \<open>&url.Error{Err: e}\<close>, the only error type \<open>http.Client.Do\<close> returns.
  \<open>Errorf e shown\<close> is \<open>fmt.Errorf\<close> with one \<open>%w\<close> operand \<open>e\<close>: it wraps \<open>e\<close>
  and only prints \<open>shown\<close>. \<open>NetError t msg\<close> is a \<open>net.Error\<close> whose \<open>Timeout()\<close>
  answers \<open>t\<close>. \<open>OtherError msg\<close> is any error with no method but \<open>Error()\<close>.
\<close>

datatype goerr =
    ErrConnectTimeout
  | ErrConnection
  | ErrTimeout
  | errRetryImpossible
  | errRetryAllowed
  | errTrackableStatusCodeError
  | ErrCircuitIsOpen
  | ErrCircuitMaxConcurrencyReached
  | ErrCircuitTimeout
  | DeadlineExceeded
  | Canceled
  | ErrAttemptsExceeded
  | hystrix_ErrCircuitOpen
  | hystrix_ErrMaxConcurrency
  | hystrix_ErrTimeout
  | NetError bool string
  | OtherError string
  | UrlError goerr
  | Errorf goerr goerr

text \<open>\<open>errors.Is\<close>: walk the \<open>Unwrap\<close> chain comparing with \<open>==\<close>.\<close>

fun errors_Is :: "goerr \<Rightarrow> goerr \<Rightarrow> bool" where
  "errors_Is (UrlError e) target = (UrlError e = target \<or> errors_Is e target)"
| "errors_Is (Errorf e shown) target = (Errorf e shown = target \<or> errors_Is e target)"
| "errors_Is e target = (e = target)"

text \<open>
  The \<open>Timeout() bool\<close> method, where the dynamic type has one: \<open>None\<close> is a type
  without the method. \<open>context.DeadlineExceeded\<close> has it and answers true; a
  \<open>*url.Error\<close> has it and asks the error it holds (\<open>url.Error.Timeout\<close>); the values of
  \<open>errors.New\<close> and \<open>fmt.Errorf\<close> do not have it.
\<close>

fun Timeout_method :: "goerr \<Rightarrow> bool option" where
  "Timeout_method DeadlineExceeded = Some True"
| "Timeout_method (NetError t msg) = Some t"
| "Timeout_method (UrlError e) = Some (Timeout_method e = Some True)"
| "Timeout_method e = None"

text \<open>\<open>errors.As(err, &urlErr)\<close>: the first \<open>*url.Error\<close> of the chain, as the error it holds.\<close>

fun errors_As_url :: "goerr \<Rightarrow> goerr option" where
  "errors_As_url (UrlError e) = Some e"
| "errors_As_url (Errorf e shown) = errors_As_url e"
| "errors_As_url e = None"

text \<open>\<open>err.(net.Error)\<close>: the type assertion of the dialer; \<open>Some t\<close> when it holds, with \<open>t\<close> the answer of \<open>Timeout()\<close>.\<close>

fun as_net_Error :: "goerr \<Rightarrow> bool option" where
  "as_net_Error (NetError t msg) = Some t"
| "as_net_Error (UrlError e) = Some (Timeout_method e = Some True)"
| "as_net_Error DeadlineExceeded = Some True"
| "as_net_Error e = None"

subsection \<open>Requests, responses, bodies\<close>

type_synonym bytes = "8 word list"

record response =
  StatusCode :: int
  Payload :: bytes

text \<open>
  A request object: \<open>Method\<close>, the URL as \<open>req.URL.String()\<close> prints it, \<open>req.URL.Path\<close>,
  and \<open>Body\<close>, the address of a reader or \<open>None\<close> for a nil body.
\<close>

record request =
  Method :: string
  URL :: string
  Path :: string
  Body :: "nat option"

text \<open>
  An \<open>io.Reader\<close>: the bytes not read yet, and the error its \<open>Read\<close> reports once they are
  read (\<open>None\<close> is \<open>io.EOF\<close>).
\<close>

record reader =
  content :: bytes
  fault :: "goerr option"

text \<open>What a closure of type \<open>requestClosure\<close> hands back: the pair, or a run-time panic.\<close>

datatype result = Result "response option" "goerr option" | Panic

text \<open>What a callback of type \<open>func() error\<close> hands back: nil, an error, or a panic.\<close>

datatype signal = Ok | Fail goerr | Crash

subsection \<open>Instrumentation\<close>

text \<open>
  The calls made on the \<open>Instrumentation\<close> collaborator, request arguments by address,
  and the calls of the two hooks \<open>trackKey\<close> and \<open>trackError\<close> that the tests install.
\<close>

datatype event =
    InitWarning string
  | Init string
  | BaseDoDuration int string
  | BaseDoErr goerr string string
  | DoDuration string
  | CBCircuitOpen nat
  | CBTrackedStatusCode nat int
  | RetryNonRetriable nat int
  | RetryRetriable nat int
  | SingleflightErr nat goerr
  | trackKey string
  | trackError

subsection \<open>The world\<close>

text \<open>One message on the wire: method, URL and the body bytes offered.\<close>

type_synonym wire = "string \<times> string \<times> bytes option"

text \<open>
  The state of hystrix-go for this client's command name, as far as one caller sees it:
  whether the circuit refuses requests when the caller arrives, how many concurrency
  tickets are free, the outcomes reported so far (\<open>True\<close> for a success), and the settings
  given to \<open>hystrix.ConfigureCommand\<close>. The rolling window and the cool-down run on real
  time and are not part of the model.
\<close>

record hystrix =
  circuit_open :: bool
  tickets :: nat
  reports :: "bool list"
  cfg_Timeout :: int
  cfg_MaxConcurrentRequests :: int
  cfg_ErrorPercentThreshold :: int

record world =
  requests :: "nat \<Rightarrow> request"
  next_request :: nat
  readers :: "nat \<Rightarrow> reader"
  next_reader :: nat
  events :: "event list"
  ctx :: "goerr option"
  sent :: "wire list"
  breaker :: hystrix
  flights :: "string \<Rightarrow> result option"
  inited :: bool

type_synonym requestClosure = "nat \<Rightarrow> world \<Rightarrow> result \<times> world"

definition emit :: "event \<Rightarrow> world \<Rightarrow> world" where
  "emit e w = w\<lparr>events := events w @ [e]\<rparr>"

subsection \<open>Status codes of \<open>net/http\<close>\<close>

abbreviation StatusOK :: int where "StatusOK \<equiv> 200"
abbreviation StatusBadRequest :: int where "StatusBadRequest \<equiv> 400"
abbreviation StatusUnauthorized :: int where "StatusUnauthorized \<equiv> 401"
abbreviation StatusPaymentRequired :: int where "StatusPaymentRequired \<equiv> 402"
abbreviation StatusForbidden :: int where "StatusForbidden \<equiv> 403"
abbreviation StatusNotFound :: int where "StatusNotFound \<equiv> 404"
abbreviation StatusMethodNotAllowed :: int where "StatusMethodNotAllowed \<equiv> 405"
abbreviation StatusNotAcceptable :: int where "StatusNotAcceptable \<equiv> 406"
abbreviation StatusProxyAuthRequired :: int where "StatusProxyAuthRequired \<equiv> 407"
abbreviation StatusRequestTimeout :: int where "StatusRequestTimeout \<equiv> 408"
abbreviation StatusConflict :: int where "StatusConflict \<equiv> 409"
abbreviation StatusGone :: int where "StatusGone \<equiv> 410"
abbreviation StatusLengthRequired :: int where "StatusLengthRequired \<equiv> 411"
abbreviation StatusPreconditionFailed :: int where "StatusPreconditionFailed \<equiv> 412"
abbreviation StatusRequestEntityTooLarge :: int where "StatusRequestEntityTooLarge \<equiv> 413"
abbreviation StatusRequestURITooLong :: int where "StatusRequestURITooLong \<equiv> 414"
abbreviation StatusUnsupportedMediaType :: int where "StatusUnsupportedMediaType \<equiv> 415"
abbreviation StatusRequestedRangeNotSatisfiable :: int where "StatusRequestedRangeNotSatisfiable \<equiv> 416"
abbreviation StatusExpectationFailed :: int where "StatusExpectationFailed \<equiv> 417"
abbreviation StatusTeapot :: int where "StatusTeapot \<equiv> 418"
abbreviation StatusMisdirectedRequest :: int where "StatusMisdirectedRequest \<equiv> 421"
abbreviation StatusUnprocessableEntity :: int where "StatusUnprocessableEntity \<equiv> 422"
abbreviation StatusLocked :: int where "StatusLocked \<equiv> 423"
abbreviation StatusFailedDependency :: int where "StatusFailedDependency \<equiv> 424"
abbreviation StatusTooEarly :: int where "StatusTooEarly \<equiv> 425"
abbreviation StatusUpgradeRequired :: int where "StatusUpgradeRequired \<equiv> 426"
abbreviation StatusPreconditionRequired :: int where "StatusPreconditionRequired \<equiv> 428"
abbreviation StatusTooManyRequests :: int where "StatusTooManyRequests \<equiv> 429"
abbreviation StatusRequestHeaderFieldsTooLarge :: int where "StatusRequestHeaderFieldsTooLarge \<equiv> 431"
abbreviation StatusUnavailableForLegalReasons :: int where "StatusUnavailableForLegalReasons \<equiv> 451"
abbreviation StatusInternalServerError :: int where "StatusInternalServerError \<equiv> 500"
abbreviation StatusNotImplemented :: int where "StatusNotImplemented \<equiv> 501"
abbreviation StatusBadGateway :: int where "StatusBadGateway \<equiv> 502"
abbreviation StatusServiceUnavailable :: int where "StatusServiceUnavailable \<equiv> 503"
abbreviation StatusGatewayTimeout :: int where "StatusGatewayTimeout \<equiv> 504"
abbreviation StatusHTTPVersionNotSupported :: int where "StatusHTTPVersionNotSupported \<equiv> 505"
abbreviation StatusVariantAlsoNegotiates :: int where "StatusVariantAlsoNegotiates \<equiv> 506"
abbreviation StatusInsufficientStorage :: int where "StatusInsufficientStorage \<equiv> 507"
abbreviation StatusLoopDetected :: int where "StatusLoopDetected \<equiv> 508"
abbreviation StatusNotExtended :: int where "StatusNotExtended \<equiv> 510"
abbreviation StatusNetworkAuthenticationRequired :: int where "StatusNetworkAuthenticationRequired \<equiv> 511"

subsection \<open>The retry layer (\<open>retries.go\<close>)\<close>










text \<open>The two case lists of the \<open>switch resp.StatusCode\<close> of the callback, in source order.\<close>

definition nonRetriableCodes :: "int list" where
  "nonRetriableCodes =
     [StatusBadRequest, StatusUnauthorized, StatusPaymentRequired, StatusForbidden,
      StatusNotFound, StatusMethodNotAllowed, StatusNotAcceptable, StatusProxyAuthRequired,
      StatusGone, StatusLengthRequired, StatusPreconditionFailed, StatusRequestEntityTooLarge,
      StatusRequestURITooLong, StatusUnsupportedMediaType, StatusRequestedRangeNotSatisfiable,
      StatusExpectationFailed, StatusTeapot, StatusMisdirectedRequest, StatusUnprocessableEntity,
      StatusLocked, StatusFailedDependency, StatusTooEarly, StatusUpgradeRequired,
      StatusPreconditionRequired, StatusTooManyRequests, StatusRequestHeaderFieldsTooLarge,
      StatusUnavailableForLegalReasons, StatusNotImplemented, StatusBadGateway,
      StatusHTTPVersionNotSupported, StatusVariantAlsoNegotiates, StatusInsufficientStorage,
      StatusLoopDetected, StatusNotExtended, StatusNetworkAuthenticationRequired]"







subsection \<open>The circuit-breaker layer\<close>

abbreviation defaultErrorThreshold :: int where "defaultErrorThreshold \<equiv> 80"
abbreviation minErrorThreshold :: int where "minErrorThreshold \<equiv> 50"

record CircuitBreaker =
  ErrorPercentThreshold :: int
  MaxConcurrentRequests :: int



definition getErrorPercent :: "CircuitBreaker \<Rightarrow> int \<times> event list" where
  "getErrorPercent b =
     (if ErrorPercentThreshold b > minErrorThreshold then (ErrorPercentThreshold b, [])
      else (defaultErrorThreshold,
            [InitWarning ''using default 'error threshold' setting for circuit breaker'']))"


text \<open>
  Modelled from the spec: \<open>hystrix.Do\<close> of \<open>github.com/afex/hystrix-go\<close>, a dependency whose
  source is not part of the repository, called with a nil fallback. As section 4.3 of the
  specification describes it: an open circuit rejects the call without running it, a full
  concurrency gate rejects it without running it, otherwise the function runs, its
  outcome is reported to the circuit and its error is the result. The breaker-level
  time-out (one hour) is not modelled.
\<close>

definition hystrix_Do ::
  "('v \<Rightarrow> world \<Rightarrow> signal \<times> 'v \<times> world) \<Rightarrow> 'v \<Rightarrow> world \<Rightarrow> signal \<times> 'v \<times> world" where
  "hystrix_Do run v w =
     (if circuit_open (breaker w) then (Fail hystrix_ErrCircuitOpen, v, w)
      else if tickets (breaker w) = 0 then (Fail hystrix_ErrMaxConcurrency, v, w)
      else case run v w of
             (Crash, v', w') \<Rightarrow> (Crash, v', w')
           | (Ok, v', w') \<Rightarrow>
               (Ok, v', w'\<lparr>breaker := (breaker w')\<lparr>reports := reports (breaker w') @ [True]\<rparr>\<rparr>)
           | (Fail e, v', w') \<Rightarrow>
               (Fail e, v', w'\<lparr>breaker := (breaker w')\<lparr>reports := reports (breaker w') @ [False]\<rparr>\<rparr>))"

text \<open>The case list of \<open>outErrorBasedOnResponseCode\<close>, in source order.\<close>

definition trackedCodes :: "int list" where
  "trackedCodes =
     [StatusRequestTimeout, StatusTooManyRequests, StatusInternalServerError,
      StatusNotImplemented, StatusBadGateway, StatusServiceUnavailable, StatusGatewayTimeout,
      StatusHTTPVersionNotSupported, StatusVariantAlsoNegotiates, StatusInsufficientStorage,
      StatusLoopDetected, StatusNotExtended, StatusNetworkAuthenticationRequired]"

definition outErrorBasedOnResponseCode :: "nat \<Rightarrow> response \<Rightarrow> world \<Rightarrow> goerr option \<times> world" where
  "outErrorBasedOnResponseCode rq resp w =
     (if StatusCode resp \<in> set trackedCodes
      then (Some errTrackableStatusCodeError,
            emit (CBTrackedStatusCode rq (StatusCode resp)) (emit trackError w))
      else (None, w))"

text \<open>The function handed to \<open>hystrix.Do\<close>; the variable it closes over is \<open>resp\<close>.\<close>

definition cbRun :: "requestClosure \<Rightarrow> nat \<Rightarrow> response option \<Rightarrow> world
    \<Rightarrow> signal \<times> response option \<times> world" where
  "cbRun doFunc rq resp w =
     (case doFunc rq w of
        (Panic, w1) \<Rightarrow> (Crash, resp, w1)
      | (Result resp' innerErr, w1) \<Rightarrow>
         (case innerErr of
            Some e \<Rightarrow> (Fail e, resp', w1)
          | None \<Rightarrow>
             (case resp' of
                None \<Rightarrow> (Crash, resp', w1)
              | Some r \<Rightarrow>
                 (case outErrorBasedOnResponseCode rq r w1 of
                    (None, w2) \<Rightarrow> (Ok, resp', w2)
                  | (Some e, w2) \<Rightarrow> (Fail e, resp', w2)))))"

text \<open>\<open>switch err\<close> compares with \<open>==\<close>, not with \<open>errors.Is\<close>.\<close>

definition CircuitBreaker_buildMiddleware ::
  "CircuitBreaker \<Rightarrow> requestClosure \<Rightarrow> requestClosure" where
  "CircuitBreaker_buildMiddleware b doFunc rq w =
     (case hystrix_Do (cbRun doFunc rq) None w of
        (Crash, resp, w') \<Rightarrow> (Panic, w')
      | (Ok, resp, w') \<Rightarrow> (Result resp None, w')
      | (Fail e, resp, w') \<Rightarrow>
          if e = hystrix_ErrCircuitOpen
          then (Result resp (Some ErrCircuitIsOpen), emit (CBCircuitOpen rq) w')
          else if e = hystrix_ErrMaxConcurrency
          then (Result resp (Some ErrCircuitMaxConcurrencyReached), w')
          else if e = hystrix_ErrTimeout
          then (Result resp (Some ErrCircuitTimeout), w')
          else if e = errTrackableStatusCodeError
          then (Result resp None, w')
          else (Result resp (Some e), w'))"


subsection \<open>The single-flight layer (\<open>singleflight.go\<close>)\<close>

record Singleflight =
  KeyGenerator :: "(request \<Rightarrow> string) option"

definition DefaultSFKeyGenerator :: "request \<Rightarrow> string" where
  "DefaultSFKeyGenerator r = Method r @ ''||'' @ URL r"

text \<open>\<open>actualKeyGenerator\<close>, as \<open>doInitOnce\<close> sets it.\<close>

definition actualKeyGenerator :: "Singleflight \<Rightarrow> request \<Rightarrow> string" where
  "actualKeyGenerator s =
     (case KeyGenerator s of Some g \<Rightarrow> g | None \<Rightarrow> DefaultSFKeyGenerator)"

abbreviation MethodGet :: string where "MethodGet \<equiv> ''GET''"

text \<open>
  Modelled from the spec: \<open>Group.Do\<close> of \<open>golang.org/x/sync/singleflight\<close>, a dependency
  whose source is not part of the repository, as one caller sees it (section 4.4 of the
  specification): when a call with the same key is in flight at the caller's arrival
  (\<open>flights w key = Some res\<close>, with \<open>res\<close> what that call delivers), the caller waits and
  receives \<open>res\<close> without running its function; otherwise the caller runs the function.
  The caller's variable \<open>innerErr\<close> is assigned only when its own function ran.
\<close>

definition Singleflight_buildMiddleware ::
  "Singleflight \<Rightarrow> requestClosure \<Rightarrow> requestClosure" where
  "Singleflight_buildMiddleware s doFunc rq w =
     (if KeyGenerator s = None \<and> Method (requests w rq) \<noteq> MethodGet then doFunc rq w
      else
        (let key = actualKeyGenerator s (requests w rq);
             w1 = emit (trackKey key) w
         in case flights w1 key of
              None \<Rightarrow> doFunc rq w1
            | Some Panic \<Rightarrow> (Panic, w1)
            | Some (Result resp err) \<Rightarrow>
                (Result resp err,
                 case err of None \<Rightarrow> w1 | Some e \<Rightarrow> emit (SingleflightErr rq e) w1)))"


subsection \<open>The base executor and \<open>Client.Do\<close>\<close>

text \<open>
  The dialer of \<open>GetTransportWithCustomDialer\<close>: what \<open>DialContext\<close> returns for the error
  \<open>e\<close> of \<open>net.Dialer.DialContext\<close>.
\<close>

definition DialContext_err :: "goerr \<Rightarrow> goerr" where
  "DialContext_err e =
     (case as_net_Error e of
        Some t \<Rightarrow> if t then ErrConnectTimeout else Errorf ErrConnection e
      | None \<Rightarrow> e)"

text \<open>
  One round trip as the network decides it: the dial fails, or the exchange fails after
  the connection phase, or a response arrives; how many bytes of the body were read, and
  the state of the request's context when the attempt is over.
\<close>

datatype netreply = DialFailure goerr | TransportFailure goerr | Responded response

record exchange =
  outcome :: netreply
  taken :: nat
  ctx_after :: "goerr option"

type_synonym network = "wire list \<Rightarrow> wire \<Rightarrow> exchange"

type_synonym clientDo = "nat \<Rightarrow> world \<Rightarrow> (response option \<times> goerr option) \<times> world"

text \<open>
  Modelled from the documentation of \<open>net/http\<close>: \<open>http.Client.Do\<close> with the transport of
  \<open>buildClient\<close>, over a network that answers each message from what it has seen so far.
  A non-nil error is always a \<open>*url.Error\<close> and comes with a nil response.
\<close>

definition http_Client_Do :: "network \<Rightarrow> clientDo" where
  "http_Client_Do net rq w =
     (let r = requests w rq;
          offered = (case Body r of None \<Rightarrow> None | Some a \<Rightarrow> Some (content (readers w a)));
          x = (Method r, URL r, offered);
          ex = net (sent w) x;
          w1 = w\<lparr>sent := sent w @ [x],
                 readers := (case Body r of
                               None \<Rightarrow> readers w
                             | Some a \<Rightarrow> (readers w)
                                 (a := (readers w a)\<lparr>content := drop (taken ex) (content (readers w a))\<rparr>)),
                 ctx := (case ctx w of Some e \<Rightarrow> Some e | None \<Rightarrow> ctx_after ex)\<rparr>
      in case outcome ex of
           DialFailure e \<Rightarrow> ((None, Some (UrlError (DialContext_err e))), w1)
         | TransportFailure e \<Rightarrow> ((None, Some (UrlError e)), w1)
         | Responded resp \<Rightarrow> ((Some resp, None), w1))"


text \<open>
  The closure \<open>doRequestFunc\<close> of \<open>Client.Do\<close>, over \<open>c.getClient().Do\<close> and the endpoint tag.
  \<open>urlErr.Timeout()\<close> is the \<open>Timeout\<close> method of the error the \<open>*url.Error\<close> holds.
\<close>

definition doRequestFunc :: "clientDo \<Rightarrow> string \<Rightarrow> requestClosure" where
  "doRequestFunc getClient_Do endpointTag rq w =
     (case getClient_Do rq w of
        ((resp, Some e), w1) \<Rightarrow>
          (let w2 = emit (BaseDoDuration 0 endpointTag) w1
           in if (case errors_As_url e of Some u \<Rightarrow> Timeout_method u = Some True | None \<Rightarrow> False)
              then (Result resp (Some (Errorf ErrTimeout e)),
                    emit (BaseDoErr e endpointTag ''timeout'') w2)
              else if errors_Is e DeadlineExceeded
              then (Result resp (Some e), emit (BaseDoErr e endpointTag ''ctxTimeout'') w2)
              else if errors_Is e Canceled
              then (Result resp (Some e), emit (BaseDoErr e endpointTag ''ctxCanceled'') w2)
              else (Result resp (Some e), emit (BaseDoErr e endpointTag ''na'') w2))
      | ((None, None), w1) \<Rightarrow> (Panic, w1)
      | ((Some r, None), w1) \<Rightarrow>
          (Result (Some r) None, emit (BaseDoDuration (StatusCode r) endpointTag) w1))"




subsection \<open>Concrete inputs\<close>

text \<open>A request without a body, a closed circuit with free tickets, and an idle world.\<close>

definition request0 :: request where
  "request0 = \<lparr>Method = ''GET'', URL = ''http://shop/items'', Path = ''/items'', Body = None\<rparr>"

definition hystrix0 :: hystrix where
  "hystrix0 = \<lparr>circuit_open = False, tickets = 10, reports = [], cfg_Timeout = 0,
               cfg_MaxConcurrentRequests = 0, cfg_ErrorPercentThreshold = 0\<rparr>"

definition world0 :: world where
  "world0 = \<lparr>requests = (\<lambda>_. request0), next_request = 1,
             readers = (\<lambda>_. \<lparr>content = [], fault = None\<rparr>), next_reader = 0,
             events = [], ctx = None, sent = [], breaker = hystrix0,
             flights = (\<lambda>_. None), inited = False\<rparr>"

text \<open>A downstream closure that answers every call with the same status code, or with the same pair.\<close>

definition answer :: "int \<Rightarrow> requestClosure" where
  "answer code rq w = (Result (Some \<lparr>StatusCode = code, Payload = []\<rparr>) None, w)"


text \<open>
  The non-retriable set as the specification enumerates it, for comparison with
  \<open>nonRetriableCodes\<close>: 400 to 417, 421 to 431, 451, 501, 502, 505 to 511, minus the
  retriable codes.
\<close>

definition specNonRetriable :: "int set" where
  "specNonRetriable =
     ({400..417} \<union> {421..431} \<union> {451, 501, 502} \<union> {505..511}) - {408, 500, 503, 504}"


text \<open>
  The safe methods of RFC 7231, section 4.2.1: what the specification's "side-effect-free"
  names, for comparison with the guard of \<open>Singleflight.buildMiddleware\<close>.
\<close>

definition specSideEffectFree :: "string \<Rightarrow> bool" where
  "specSideEffectFree m = (m \<in> set [''GET'', ''HEAD'', ''OPTIONS'', ''TRACE''])"

definition sf0 :: Singleflight where
  "sf0 = \<lparr>KeyGenerator = None\<rparr>"

definition response200 :: response where
  "response200 = \<lparr>StatusCode = 200, Payload = []\<rparr>"

text \<open>A world whose requests use method \<open>m\<close>, with a call for the default key of that request in flight.\<close>

definition worldFlight :: "string \<Rightarrow> world" where
  "worldFlight m =
     world0\<lparr>requests := (\<lambda>_. request0\<lparr>Method := m\<rparr>),
            flights := (\<lambda>k. if k = m @ ''||http://shop/items''
                             then Some (Result (Some response200) None) else None)\<rparr>"




section \<open>Properties\<close>

subsection \<open>The circuit breaker\<close>

text \<open>
  C5, at the floor itself. The field's comment reads "Default value is 80 (cannot be set
  below 50)" and the constant is \<open>minErrorThreshold = 50\<close>, yet \<open>getErrorPercent\<close> compares
  with \<open>>\<close>: a configured threshold of exactly 50 is thrown away for the default 80, with
  the warning.
\<close>

theorem C5_floor_value_rejected:
  "getErrorPercent \<lparr>ErrorPercentThreshold = 50, MaxConcurrentRequests = 10\<rparr>
     = (80, [InitWarning ''using default 'error threshold' setting for circuit breaker''])"
  by (simp add: getErrorPercent_def)

text \<open>What \<open>getErrorPercent\<close> does everywhere: the value when it is above 50, the default 80 and the warning otherwise.\<close>

lemma getErrorPercent_cases:
  "getErrorPercent b =
     (if 50 < ErrorPercentThreshold b then (ErrorPercentThreshold b, [])
      else (80, [InitWarning ''using default 'error threshold' setting for circuit breaker'']))"
  by (simp add: getErrorPercent_def)

text \<open>
  C3. When the circuit admits the call and the wrapped layer returns a response with a
  nil error, the breaker's layer returns that response with a nil error; the outcome it
  reports to the circuit is a failure, with one \<open>CBTrackedStatusCode\<close> call, exactly when
  the status code is one of 408, 429, 500, 501, 502, 503, 504, 505, 506, 507, 508, 510,
  511, and a success with no call for every other code.
\<close>

theorem C3_breaker_classification:
  assumes "\<not> circuit_open (breaker w)" and "tickets (breaker w) \<noteq> 0"
    and "doFunc rq w = (Result (Some r) None, w1)"
  shows "CircuitBreaker_buildMiddleware b doFunc rq w =
     (Result (Some r) None,
      if StatusCode r \<in> {408, 429, 500, 501, 502, 503, 504, 505, 506, 507, 508, 510, 511}
      then (emit (CBTrackedStatusCode rq (StatusCode r)) (emit trackError w1))
             \<lparr>breaker := (breaker w1)\<lparr>reports := reports (breaker w1) @ [False]\<rparr>\<rparr>
      else w1\<lparr>breaker := (breaker w1)\<lparr>reports := reports (breaker w1) @ [True]\<rparr>\<rparr>)"
  using assms
  by (simp add: CircuitBreaker_buildMiddleware_def hystrix_Do_def cbRun_def
      outErrorBasedOnResponseCode_def trackedCodes_def emit_def)

theorem C3_breaker_classification_witness:
  "\<not> circuit_open (breaker world0) \<and> tickets (breaker world0) \<noteq> 0
   \<and> answer 503 0 world0 = (Result (Some \<lparr>StatusCode = 503, Payload = []\<rparr>) None, world0)
   \<and> fst (CircuitBreaker_buildMiddleware \<lparr>ErrorPercentThreshold = 80, MaxConcurrentRequests = 10\<rparr>
            (answer 503) 0 world0)
       = Result (Some \<lparr>StatusCode = 503, Payload = []\<rparr>) None
   \<and> reports (breaker (snd (CircuitBreaker_buildMiddleware
            \<lparr>ErrorPercentThreshold = 80, MaxConcurrentRequests = 10\<rparr> (answer 503) 0 world0)))
       = [False]
   \<and> reports (breaker (snd (CircuitBreaker_buildMiddleware
            \<lparr>ErrorPercentThreshold = 80, MaxConcurrentRequests = 10\<rparr> (answer 404) 0 world0)))
       = [True]"
  using C3_breaker_classification [of world0 "answer 503" 0 "\<lparr>StatusCode = 503, Payload = []\<rparr>"
      world0 "\<lparr>ErrorPercentThreshold = 80, MaxConcurrentRequests = 10\<rparr>"]
    C3_breaker_classification [of world0 "answer 404" 0 "\<lparr>StatusCode = 404, Payload = []\<rparr>"
      world0 "\<lparr>ErrorPercentThreshold = 80, MaxConcurrentRequests = 10\<rparr>"]
  by (simp add: world0_def hystrix0_def answer_def emit_def)

subsection \<open>The retry layer: one attempt\<close>







text \<open>
  The source's list and the specification's enumeration differ on five codes: 409, 427,
  430 and 509 are enumerated but take the \<open>default\<close> branch, 418 is listed in the source
  but not enumerated. Both branches end the layer the same way.
\<close>

lemma nonRetriable_lists_differ:
  "specNonRetriable - set nonRetriableCodes = {409, 427, 430, 509}"
  "set nonRetriableCodes - specNonRetriable = {418}"
  by (auto simp: specNonRetriable_def nonRetriableCodes_def) arith+



subsection \<open>The base executor\<close>

text \<open>
  C4, at the error \<open>http.Client.Do\<close> returns when the deadline of the caller's context
  expires: a \<open>*url.Error\<close> holding \<open>context.DeadlineExceeded\<close>, whose \<open>Timeout()\<close> is true.
  The first case of the \<open>switch\<close> takes it, before the case written for it
  (\<open>errors.Is(err, context.DeadlineExceeded)\<close>, tag \<open>ctxTimeout\<close>): the closure returns an
  error that wraps \<open>ErrTimeout\<close> and is no longer the deadline error.
\<close>

theorem C4_deadline_expiry_wrapped:
  "doRequestFunc (\<lambda>rq w. ((None, Some (UrlError DeadlineExceeded)), w)) tag rq w
     = (Result None (Some (Errorf ErrTimeout (UrlError DeadlineExceeded))),
        emit (BaseDoErr (UrlError DeadlineExceeded) tag ''timeout'')
          (emit (BaseDoDuration 0 tag) w))
   \<and> \<not> errors_Is (Errorf ErrTimeout (UrlError DeadlineExceeded)) DeadlineExceeded
   \<and> errors_Is (Errorf ErrTimeout (UrlError DeadlineExceeded)) ErrTimeout"
  by (simp add: doRequestFunc_def)

text \<open>The other three kinds of failure are classified as the specification says.\<close>

lemma dial_timeout_is_ErrConnectTimeout:
  assumes "as_net_Error e = Some True"
  shows "fst (doRequestFunc (\<lambda>rq w. ((None, Some (UrlError (DialContext_err e))), w)) tag rq w)
     = Result None (Some (UrlError ErrConnectTimeout))"
    and "errors_Is (UrlError ErrConnectTimeout) ErrConnectTimeout"
    and "\<not> errors_Is (UrlError ErrConnectTimeout) ErrTimeout"
  using assms by (simp_all add: doRequestFunc_def DialContext_err_def)

lemma dial_failure_wraps_ErrConnection:
  assumes "as_net_Error e = Some False"
  shows "errors_Is (DialContext_err e) ErrConnection"
  using assms by (simp add: DialContext_err_def)

lemma transport_timeout_wraps_ErrTimeout:
  assumes "Timeout_method e = Some True"
  shows "fst (doRequestFunc (\<lambda>rq w. ((None, Some (UrlError e)), w)) tag rq w)
     = Result None (Some (Errorf ErrTimeout (UrlError e)))"
  using assms by (simp add: doRequestFunc_def)

lemma cancellation_passes_through:
  "fst (doRequestFunc (\<lambda>rq w. ((None, Some (UrlError Canceled)), w)) tag rq w)
     = Result None (Some (UrlError Canceled))"
  by (simp add: doRequestFunc_def)

subsection \<open>The single-flight layer\<close>

text \<open>
  C7 as stated fails for a safe method other than GET. A HEAD request with no key
  generator, while a call with the same default key is in flight: the layer does not
  join that call, it runs the wrapped closure itself and returns its result.
\<close>

theorem C7_head_not_coalesced:
  "specSideEffectFree (Method (requests (worldFlight ''HEAD'') 0))
   \<and> KeyGenerator sf0 = None
   \<and> flights (worldFlight ''HEAD'') (DefaultSFKeyGenerator (requests (worldFlight ''HEAD'') 0))
       = Some (Result (Some response200) None)
   \<and> Singleflight_buildMiddleware sf0 (answer 503) 0 (worldFlight ''HEAD'')
       = answer 503 0 (worldFlight ''HEAD'')
   \<and> fst (answer 503 0 (worldFlight ''HEAD'')) \<noteq> Result (Some response200) None"
  by (simp add: specSideEffectFree_def sf0_def worldFlight_def world0_def request0_def
      DefaultSFKeyGenerator_def Singleflight_buildMiddleware_def answer_def response200_def)

text \<open>
  C7 as amended. With no key generator and a method other than \<open>GET\<close> the layer is the
  wrapped closure. With a key generator, or with method \<open>GET\<close>, the layer works under the
  key of the request: it hands back the result of a call in flight under that key and
  leaves the state as it was up to the log, or, with no such call, runs the wrapped
  closure. With no key generator the key is the method, \<open>||\<close> and the URL string.
\<close>

theorem C7_coalescing_applicability:
  "(KeyGenerator s = None \<and> Method (requests w rq) \<noteq> ''GET'' \<longrightarrow>
      Singleflight_buildMiddleware s doFunc rq w = doFunc rq w)
   \<and> ((KeyGenerator s \<noteq> None \<or> Method (requests w rq) = ''GET'') \<longrightarrow>
        (flights w (actualKeyGenerator s (requests w rq)) = Some (Result resp err) \<longrightarrow>
           (\<exists>w'. Singleflight_buildMiddleware s doFunc rq w = (Result resp err, w')
                 \<and> w'\<lparr>events := events w\<rparr> = w))
      \<and> (flights w (actualKeyGenerator s (requests w rq)) = None \<longrightarrow>
           Singleflight_buildMiddleware s doFunc rq w
             = doFunc rq (emit (trackKey (actualKeyGenerator s (requests w rq))) w)))
   \<and> (KeyGenerator s = None \<longrightarrow>
        actualKeyGenerator s (requests w rq)
          = Method (requests w rq) @ ''||'' @ URL (requests w rq))"
  by (auto simp: Singleflight_buildMiddleware_def Let_def emit_def actualKeyGenerator_def
      DefaultSFKeyGenerator_def split: option.splits)

theorem C7_coalescing_applicability_witness:
  "KeyGenerator sf0 = None \<and> Method (requests (worldFlight ''POST'') 0) \<noteq> ''GET''
   \<and> Method (requests (worldFlight ''GET'') 0) = ''GET''
   \<and> flights (worldFlight ''GET'') (actualKeyGenerator sf0 (requests (worldFlight ''GET'') 0))
        = Some (Result (Some response200) None)
   \<and> flights world0 (actualKeyGenerator sf0 (requests world0 0)) = None
   \<and> Singleflight_buildMiddleware sf0 (answer 503) 0 (worldFlight ''POST'')
        = answer 503 0 (worldFlight ''POST'')
   \<and> fst (Singleflight_buildMiddleware sf0 (answer 503) 0 (worldFlight ''GET''))
        = Result (Some response200) None
   \<and> Singleflight_buildMiddleware sf0 (answer 503) 0 world0
        = answer 503 0 (emit (trackKey ''GET||http://shop/items'') world0)"
  using
    C7_coalescing_applicability [where s = sf0 and w = "worldFlight ''POST''" and rq = 0
      and doFunc = "answer 503"]
    C7_coalescing_applicability [where s = sf0 and w = "worldFlight ''GET''" and rq = 0
      and doFunc = "answer 503" and resp = "Some response200" and err = None]
    C7_coalescing_applicability [where s = sf0 and w = world0 and rq = 0
      and doFunc = "answer 503"]
  by (auto simp: sf0_def worldFlight_def world0_def request0_def actualKeyGenerator_def
      DefaultSFKeyGenerator_def)

subsection \<open>The composition in \<open>Client.Do\<close>\<close>



text \<open>
  The breaker sees a retry sequence as one call: whatever the wrapped closure did, an
  admitted call adds exactly one report to the circuit, made from the closure's result.
\<close>

lemma breaker_reports_once:
  assumes "\<not> circuit_open (breaker w)" and "tickets (breaker w) \<noteq> 0"
    and "doFunc rq w = (Result resp err, w1)" and "resp \<noteq> None \<or> err \<noteq> None"
  shows "reports (breaker (snd (CircuitBreaker_buildMiddleware b doFunc rq w)))
     = reports (breaker w1)
       @ [err = None \<and> (\<forall>r. resp = Some r \<longrightarrow> StatusCode r \<notin> set trackedCodes)]"
  using assms
  by (auto simp: CircuitBreaker_buildMiddleware_def hystrix_Do_def cbRun_def
      outErrorBasedOnResponseCode_def emit_def split: option.splits)

subsection \<open>The retry layer: time-outs\<close>








end
